theory Spec2Isabelle
  imports Main
begin

section \<open>The text scrubber of \<open>main.py\<close>\<close>

text \<open>
  The program rewrites a text with a list of regular expressions. Python strings are
  modelled as \<open>string\<close>, one \<open>char\<close> per code point (code points below 256).
  Two libraries are called but are not part of the program: Python's \<open>re\<close> and
  \<open>Faker\<close>. Both are parameters of the model, so every general theorem below holds for
  whatever these libraries compute. A concrete model of a fragment of \<open>re\<close> is given
  further down and is used only to evaluate the program on concrete inputs.
\<close>

subsection \<open>The interface of \<open>re\<close>\<close>

text \<open>
  \<open>re.compile\<close> returns a pattern object, raises \<open>re.error\<close>, or raises another
  exception (CPython raises \<open>OverflowError\<close> for a repetition count of \<open>2^32 - 1\<close>
  or more, and \<open>RecursionError\<close> for very deep nesting). The three outcomes are kept
  apart because \<open>sanitize_text\<close> catches \<open>re.error\<close> only.
\<close>

datatype py_exception = OverflowError | RecursionError

datatype 'p compile_result = Compiled 'p | ReError string | Raises py_exception

text \<open>A match object is reduced to its span: start and end offset in the searched text.\<close>

type_synonym re_match = "nat \<times> nat"

text \<open>
  \<open>re_finditer\<close> gives the spans of the non-overlapping matches from left to right, the
  matches that \<open>re.sub\<close> replaces; \<open>None\<close> stands for an exception raised by the
  matcher at run time.
\<close>

record 'p re_module =
  re_compile :: "string \<Rightarrow> 'p compile_result"
  re_finditer :: "'p \<Rightarrow> string \<Rightarrow> re_match list option"

text \<open>
  \<open>re.sub(pattern, repl, text)\<close> with a callable \<open>repl\<close>: the text between the matches
  is copied and every match is replaced by what \<open>repl\<close> returns for it, used as it is (a
  callable's result is not scanned for backslash escapes). The callable may draw random
  values, so it threads a generator state \<open>'g\<close>.
\<close>

fun expand :: "string \<Rightarrow> nat \<Rightarrow> re_match list \<Rightarrow> (re_match \<Rightarrow> 'g \<Rightarrow> string \<times> 'g) \<Rightarrow> 'g
    \<Rightarrow> string \<times> 'g" where
  "expand text pos [] repl g = (drop pos text, g)"
| "expand text pos (m # ms) repl g =
     (case repl m g of (r, g') \<Rightarrow>
       (case expand text (snd m) ms repl g' of (rest, g'') \<Rightarrow>
         (take (fst m - pos) (drop pos text) @ r @ rest, g'')))"

definition re_sub :: "'p re_module \<Rightarrow> 'p \<Rightarrow> (re_match \<Rightarrow> 'g \<Rightarrow> string \<times> 'g) \<Rightarrow> string \<Rightarrow> 'g
    \<Rightarrow> (string \<times> 'g) option" where
  "re_sub re pattern repl text g =
     (case re_finditer re pattern text of
        None \<Rightarrow> None
      | Some ms \<Rightarrow> Some (expand text 0 ms repl g))"

subsection \<open>The interface of \<open>Faker\<close>\<close>

text \<open>
  One generator per provider method that \<open>generate_fake_data\<close> calls. Each draws from
  the random state and returns the new state.
\<close>

record 'g faker =
  fake_email :: "'g \<Rightarrow> string \<times> 'g"
  fake_phone_number :: "'g \<Rightarrow> string \<times> 'g"
  fake_date :: "'g \<Rightarrow> string \<times> 'g"
  fake_name :: "'g \<Rightarrow> string \<times> 'g"
  fake_address :: "'g \<Rightarrow> string \<times> 'g"
  fake_credit_card_full :: "'g \<Rightarrow> string \<times> 'g"
  fake_word :: "'g \<Rightarrow> string \<times> 'g"

subsection \<open>Logging\<close>

text \<open>
  The records that the program hands to \<open>logging\<close>. The message of
  \<open>CustomReplacementMissing\<close> is not an f-string in the source, so it carries no
  pattern.
\<close>

datatype log_level = WARNING | ERROR

datatype diagnostic =
    NoPatternsProvided
  | InvalidRegexPattern string string
  | ErrorApplyingPattern
  | CustomReplacementMissing
  | InvalidReplacementType string string

fun level :: "diagnostic \<Rightarrow> log_level" where
  "level NoPatternsProvided = WARNING"
| "level (InvalidRegexPattern pattern_str e) = ERROR"
| "level ErrorApplyingPattern = ERROR"
| "level CustomReplacementMissing = ERROR"
| "level (InvalidReplacementType replacement_type pattern_str) = ERROR"

subsection \<open>The functions of the program\<close>

definition replace_match :: "re_match \<Rightarrow> string \<Rightarrow> string" where
  "replace_match match replacement = replacement"

definition generate_fake_data :: "'g faker \<Rightarrow> string \<Rightarrow> 'g \<Rightarrow> string \<times> 'g" where
  "generate_fake_data fake data_type =
     (if data_type = ''email'' then fake_email fake
      else if data_type = ''phone'' then fake_phone_number fake
      else if data_type = ''date'' then fake_date fake
      else if data_type = ''name'' then fake_name fake
      else if data_type = ''address'' then fake_address fake
      else if data_type = ''credit_card'' then fake_credit_card_full fake
      else fake_word fake)"

text \<open>
  \<open>apply_regex_replacement\<close> returns the rewritten text, or the text it was given when
  \<open>re.sub\<close> raises; the keyword arguments of the source are the closure \<open>replacement_func\<close>.
\<close>

definition apply_regex_replacement ::
    "'p re_module \<Rightarrow> string \<Rightarrow> 'p \<Rightarrow> (re_match \<Rightarrow> 'g \<Rightarrow> string \<times> 'g) \<Rightarrow> 'g
      \<Rightarrow> string \<times> 'g \<times> diagnostic list" where
  "apply_regex_replacement re text pattern replacement_func g =
     (case re_sub re pattern replacement_func text g of
        Some (t, g') \<Rightarrow> (t, g', [])
      | None \<Rightarrow> (text, g, [ErrorApplyingPattern]))"

text \<open>The state of the loop of \<open>sanitize_text\<close>: the working text, the random state, the log.\<close>

record 'g run =
  sanitized_text :: string
  rng :: 'g
  diagnostics :: "diagnostic list"

definition applied :: "'g run \<Rightarrow> string \<times> 'g \<times> diagnostic list \<Rightarrow> 'g run" where
  "applied st res =
     (case res of (t, g', ds) \<Rightarrow>
        \<lparr>sanitized_text = t, rng = g', diagnostics = diagnostics st @ ds\<rparr>)"

definition logged :: "'g run \<Rightarrow> diagnostic \<Rightarrow> 'g run" where
  "logged st d = st\<lparr>diagnostics := diagnostics st @ [d]\<rparr>"

text \<open>Python's \<open>not custom_replacement\<close>: true for \<open>None\<close> and for the empty string.\<close>

definition falsy :: "string option \<Rightarrow> bool" where
  "falsy custom_replacement = (case custom_replacement of None \<Rightarrow> True | Some r \<Rightarrow> r = [])"

text \<open>
  The \<open>for\<close> loop of \<open>sanitize_text\<close>. An exception of \<open>re.compile\<close> other than
  \<open>re.error\<close> is not caught and ends the call (\<open>Inl\<close>).
\<close>

fun sanitize_loop :: "'p re_module \<Rightarrow> 'g faker \<Rightarrow> string \<Rightarrow> string option \<Rightarrow> string list
    \<Rightarrow> 'g run \<Rightarrow> py_exception + 'g run" where
  "sanitize_loop re fake replacement_type custom_replacement [] st = Inr st"
| "sanitize_loop re fake replacement_type custom_replacement (pattern_str # rest) st =
     (case re_compile re pattern_str of
        ReError e \<Rightarrow>
          sanitize_loop re fake replacement_type custom_replacement rest
            (logged st (InvalidRegexPattern pattern_str e))
      | Raises x \<Rightarrow> Inl x
      | Compiled pattern \<Rightarrow>
          if replacement_type = ''remove'' then
            sanitize_loop re fake replacement_type custom_replacement rest
              (applied st (apply_regex_replacement re (sanitized_text st) pattern
                 (\<lambda>match g. (replace_match match [], g)) (rng st)))
          else if replacement_type = ''fake'' then
            sanitize_loop re fake replacement_type custom_replacement rest
              (applied st (apply_regex_replacement re (sanitized_text st) pattern
                 (\<lambda>match. generate_fake_data fake pattern_str) (rng st)))
          else if replacement_type = ''custom'' then
            (if falsy custom_replacement then
               sanitize_loop re fake replacement_type custom_replacement rest
                 (logged st CustomReplacementMissing)
             else
               sanitize_loop re fake replacement_type custom_replacement rest
                 (applied st (apply_regex_replacement re (sanitized_text st) pattern
                    (\<lambda>match g. (replace_match match (the custom_replacement), g)) (rng st))))
          else
            sanitize_loop re fake replacement_type custom_replacement rest
              (logged st (InvalidReplacementType replacement_type pattern_str)))"

definition sanitize_text :: "'p re_module \<Rightarrow> 'g faker \<Rightarrow> string \<Rightarrow> string list \<Rightarrow> string
    \<Rightarrow> string option \<Rightarrow> 'g \<Rightarrow> py_exception + 'g run" where
  "sanitize_text re fake text patterns replacement_type custom_replacement g =
     (if patterns = [] then
        Inr \<lparr>sanitized_text = text, rng = g, diagnostics = [NoPatternsProvided]\<rparr>
      else
        sanitize_loop re fake replacement_type custom_replacement patterns
          \<lparr>sanitized_text = text, rng = g, diagnostics = []\<rparr>)"

section \<open>Properties\<close>

text \<open>
  C4. With an empty pattern list \<open>sanitize_text\<close> returns the text unchanged, whatever the
  replacement type and the custom replacement are; it raises nothing, and the one record it
  logs is a warning, not an error.
\<close>

theorem sanitize_text_no_patterns:
  "sanitize_text re fake text [] replacement_type custom_replacement g =
     Inr \<lparr>sanitized_text = text, rng = g, diagnostics = [NoPatternsProvided]\<rparr>
   \<and> level NoPatternsProvided = WARNING"
  by (simp add: sanitize_text_def)

end
